theory Spec2Isabelle
  imports Main
begin

section \<open>The host page\<close>

text \<open>
  The component of \<^verbatim>\<open>src/content/index.tsx\<close> works on the DOM of the host page. A DOM node
  is an object with identity; the model keeps the nodes in a store indexed by \<open>elem_id\<close> and
  a reference to a node is its index, so that \<^verbatim>\<open>a !== b\<close> on references is \<open>a \<noteq> b\<close> on
  indices (and on \<open>elem_id option\<close> where the reference may be \<^verbatim>\<open>null\<close>).

  An element carries the properties the component reads or writes:
  \<^item> \<open>tagName\<close>, \<open>isContentEditable\<close>, \<open>role\<close> (the reflected \<^verbatim>\<open>role\<close> attribute, \<open>None\<close> when
    absent): read by \<^verbatim>\<open>handleElementFocus\<close>;
  \<^item> \<open>inputType\<close>: the \<^verbatim>\<open>type\<close> of an \<^verbatim>\<open>input\<close> element, which the component never reads;
  \<^item> \<open>className\<close> (the class tokens) and \<open>ancestors\<close> (the proper ancestors, nearest first):
    what \<^verbatim>\<open>Element.closest\<close> with a class selector looks at;
  \<^item> \<open>textContent\<close> (the text of the child nodes) and \<open>elem_value\<close> (the \<^verbatim>\<open>value\<close> of a form
    control). They are separate: what the user types into an \<^verbatim>\<open>input\<close> is its value, and an
    \<^verbatim>\<open>input\<close> element has no children, so its text content is empty;
  \<^item> \<open>rect_top\<close>, \<open>rect_right\<close>: the bounding client rectangle, in whole pixels;
  \<^item> \<open>style_display\<close>, \<open>style_left\<close>, \<open>style_top\<close>, \<open>style_zIndex\<close>: the inline style
    (\<open>style_left = Some n\<close> stands for \<^verbatim>\<open>"npx"\<close>).
\<close>

type_synonym elem_id = nat

record element =
  tagName :: string
  inputType :: string
  isContentEditable :: bool
  role :: "string option"
  className :: "string list"
  ancestors :: "elem_id list"
  textContent :: string
  elem_value :: string
  rect_top :: int
  rect_right :: int
  style_display :: string
  style_left :: "int option"
  style_top :: "int option"
  style_zIndex :: string

text \<open>
  One render of \<^verbatim>\<open>GeminiHelper\<close>: the prop and the values the three \<^verbatim>\<open>useState\<close> hooks
  return in it. They are \<^verbatim>\<open>const\<close> bindings of that render, and every function declared in
  the component body (\<^verbatim>\<open>processText\<close>, \<^verbatim>\<open>hideHelper\<close>, \<^verbatim>\<open>handleButtonClick\<close>, ...) closes over
  them: a function of the model that reads one of them takes the render as its first
  argument. A setter (\<^verbatim>\<open>setIsMenuOpen\<close>, ...) changes the state of the component, which the
  next render will see; it does not change the render whose function is running.
\<close>

record render =
  geminiApiKey :: string
  currentElement :: "elem_id option"
  isMenuOpen :: bool
  isProcessing :: bool

text \<open>What the component does to the outside, in order.\<close>

datatype action =
    SetIsProcessing bool
  | Alert string
  | Fetch string string
  | ConsoleError

text \<open>
  What the awaited part of \<^verbatim>\<open>processText\<close> can meet: \<^verbatim>\<open>fetch\<close> rejects, the response is not
  \<^verbatim>\<open>ok\<close>, the body is not the expected JSON (\<^verbatim>\<open>response.json()\<close> rejects or the path
  \<^verbatim>\<open>candidates[0].content.parts[0].text\<close> throws), or the text is there.
\<close>

datatype response = Rejected | NotOk | Malformed | Candidate string

datatype error = TypeError

record world =
  nodes :: "elem_id \<Rightarrow> element"
  fresh :: elem_id
  body :: elem_id
  activeElement :: "elem_id option"
  scrollX :: int
  scrollY :: int
  state :: render
  helperButtonRef :: "elem_id option"
  helperMenuRef :: "elem_id option"
  listeners :: "render option"
  timers :: "render list"
  inflight :: "render list"
  trace :: "action list"

text \<open>
  \<open>state\<close> is the state of the component (with the current prop); \<open>listeners\<close> is the
  render whose handlers the effect has registered on the document, the window, the button
  and the menu items; \<open>timers\<close> are the pending \<^verbatim>\<open>setTimeout\<close> callbacks and \<open>inflight\<close> the
  calls of \<^verbatim>\<open>processText\<close> suspended at \<^verbatim>\<open>await fetch\<close>, each with the render it belongs to;
  \<open>fresh\<close> is the index the next \<^verbatim>\<open>document.createElement\<close> returns.
\<close>

definition update_node :: "elem_id \<Rightarrow> (element \<Rightarrow> element) \<Rightarrow> world \<Rightarrow> world" where
  "update_node i f w = w\<lparr>nodes := (nodes w)(i := f (nodes w i))\<rparr>"

definition matches_class :: "world \<Rightarrow> string \<Rightarrow> elem_id \<Rightarrow> bool" where
  "matches_class w c i = (c \<in> set (className (nodes w i)))"

text \<open>\<^verbatim>\<open>el.closest(".c")\<close>: the first inclusive ancestor of \<open>el\<close> with class \<open>c\<close>, or \<^verbatim>\<open>null\<close>.\<close>

definition closest :: "world \<Rightarrow> string \<Rightarrow> elem_id \<Rightarrow> elem_id option" where
  "closest w c i = List.find (matches_class w c) (i # ancestors (nodes w i))"

definition classList_add :: "string \<Rightarrow> string list \<Rightarrow> string list" where
  "classList_add c cs = (if c \<in> set cs then cs else cs @ [c])"

definition classList_remove :: "string \<Rightarrow> string list \<Rightarrow> string list" where
  "classList_remove c cs = filter (\<lambda>x. x \<noteq> c) cs"

definition alert :: "string \<Rightarrow> world \<Rightarrow> world" where
  "alert msg w = w\<lparr>trace := trace w @ [Alert msg]\<rparr>"

section \<open>The component\<close>

subsection \<open>State setters\<close>

definition setCurrentElement :: "elem_id option \<Rightarrow> world \<Rightarrow> world" where
  "setCurrentElement e w = w\<lparr>state := (state w)\<lparr>currentElement := e\<rparr>\<rparr>"

definition setIsMenuOpen :: "bool \<Rightarrow> world \<Rightarrow> world" where
  "setIsMenuOpen b w = w\<lparr>state := (state w)\<lparr>isMenuOpen := b\<rparr>\<rparr>"

definition setIsProcessing :: "bool \<Rightarrow> world \<Rightarrow> world" where
  "setIsProcessing b w =
     w\<lparr>state := (state w)\<lparr>isProcessing := b\<rparr>, trace := trace w @ [SetIsProcessing b]\<rparr>"

subsection \<open>The two controls (lines 14--48)\<close>

definition blank :: element where
  "blank = \<lparr>tagName = '''', inputType = '''', isContentEditable = False, role = None,
     className = [], ancestors = [], textContent = '''', elem_value = '''',
     rect_top = 0, rect_right = 0, style_display = '''', style_left = None,
     style_top = None, style_zIndex = ''''\<rparr>"

definition createHelperButton :: "world \<Rightarrow> elem_id \<times> world" where
  "createHelperButton w =
     (let button = fresh w;
          el = blank\<lparr>tagName := ''BUTTON'', className := [''gemini-helper-button''],
                 textContent := ''G'', style_display := ''none'',
                 isContentEditable := isContentEditable (nodes w (body w)),
                 ancestors := body w # ancestors (nodes w (body w))\<rparr>
      in (button, w\<lparr>nodes := (nodes w)(button := el), fresh := Suc button\<rparr>))"

text \<open>
  The menu and its two items; an item is clicked through the event \<open>ItemClick\<close> below, so
  only the menu itself is given a node.
\<close>

definition createHelperMenu :: "world \<Rightarrow> elem_id \<times> world" where
  "createHelperMenu w =
     (let menu = fresh w;
          el = blank\<lparr>tagName := ''DIV'', className := [''gemini-helper-menu''],
                 textContent := ''Correct GrammarImprove Clarity'', style_display := ''none'',
                 isContentEditable := isContentEditable (nodes w (body w)),
                 ancestors := body w # ancestors (nodes w (body w))\<rparr>
      in (menu, w\<lparr>nodes := (nodes w)(menu := el), fresh := Suc menu\<rparr>))"

datatype menu_item = GrammarOption | ClarityOption

fun prompt_of :: "menu_item \<Rightarrow> string" where
  "prompt_of GrammarOption =
     ''correct grammar, only reply with the corrected phrase, without your comments. respond without parentheses on left and right sides. keep the original language''"
| "prompt_of ClarityOption =
     ''rewrite for clarity, respond with ONLY the text, rewritten for clarity, no comments; keep the original language''"

subsection \<open>Menu and visibility (lines 107--147)\<close>

definition updateHelperPosition :: "elem_id \<Rightarrow> world \<Rightarrow> world" where
  "updateHelperPosition el w =
     (case helperButtonRef w of None \<Rightarrow> w
      | Some button \<Rightarrow>
        (case helperMenuRef w of None \<Rightarrow> w
         | Some menu \<Rightarrow>
           (let buttonSize = 32;
                top = rect_top (nodes w el) + scrollY w;
                left = rect_right (nodes w el) + scrollX w;
                w1 = update_node button (\<lambda>n. n\<lparr>style_left := Some (left - buttonSize),
                       style_top := Some top, style_display := ''flex'',
                       style_zIndex := ''9999999''\<rparr>) w
            in update_node menu (\<lambda>n. n\<lparr>style_left := Some (left - 10),
                 style_top := Some (top + buttonSize - 8),
                 style_zIndex := ''9999999''\<rparr>) w1)))"

definition showHelper :: "elem_id \<Rightarrow> world \<Rightarrow> world" where
  "showHelper el w = updateHelperPosition el (setCurrentElement (Some el) w)"

definition openMenu :: "world \<Rightarrow> world" where
  "openMenu w =
     (case helperMenuRef w of None \<Rightarrow> w
      | Some menu \<Rightarrow>
          update_node menu (\<lambda>n. n\<lparr>style_display := ''block''\<rparr>) (setIsMenuOpen True w))"

definition closeMenu :: "world \<Rightarrow> world" where
  "closeMenu w =
     (case helperMenuRef w of None \<Rightarrow> w
      | Some menu \<Rightarrow>
          update_node menu (\<lambda>n. n\<lparr>style_display := ''none''\<rparr>) (setIsMenuOpen False w))"

definition hideHelper :: "render \<Rightarrow> world \<Rightarrow> world" where
  "hideHelper r w =
     (if isMenuOpen r \<or> isProcessing r then w
      else closeMenu
             (case helperButtonRef w of None \<Rightarrow> w
              | Some button \<Rightarrow> update_node button (\<lambda>n. n\<lparr>style_display := ''none''\<rparr>) w))"

subsection \<open>The transform (lines 50--105)\<close>

text \<open>The \<^verbatim>\<open>finally\<close> block, lines 93--104.\<close>

definition finally_block :: "render \<Rightarrow> world \<Rightarrow> world" where
  "finally_block r w =
     (let w1 = (case helperButtonRef w of None \<Rightarrow> w
                | Some button \<Rightarrow>
                    update_node button (\<lambda>n. n\<lparr>textContent := ''G'',
                      className := classList_remove ''gemini-helper-loading'' (className n)\<rparr>) w);
          w2 = setIsProcessing False w1
      in if activeElement w2 \<noteq> currentElement r then hideHelper r w2 else w2)"

text \<open>
  \<^verbatim>\<open>processText\<close> up to its first \<^verbatim>\<open>await\<close> (lines 50--78). It runs to the end when it
  returns early or when the key is missing; otherwise it has called \<^verbatim>\<open>fetch\<close> and is
  suspended, which the model records in \<open>inflight\<close>.
\<close>

definition processText :: "render \<Rightarrow> string \<Rightarrow> world \<Rightarrow> world" where
  "processText r prompt w =
     (case currentElement r of None \<Rightarrow> w
      | Some el \<Rightarrow>
        (let text = textContent (nodes w el) in
         if text = [] then w
         else
           (let w1 = setIsProcessing True w;
                w2 = (case helperButtonRef w1 of None \<Rightarrow> w1
                      | Some button \<Rightarrow>
                          update_node button (\<lambda>n. n\<lparr>textContent := '''',
                            className := classList_add ''gemini-helper-loading'' (className n)\<rparr>) w1);
                w3 = closeMenu w2
            in if geminiApiKey r = []
               then finally_block r
                      (alert ''Please set your Gemini API key in the extension settings'' w3)
               else w3\<lparr>trace := trace w3 @ [Fetch (geminiApiKey r) (prompt @ '': '' @ text)],
                       inflight := inflight w3 @ [r]\<rparr>)))"

text \<open>
  The rest of \<^verbatim>\<open>processText\<close> (lines 80--104), run when the awaited call settles. An HTML
  element is an \<^verbatim>\<open>HTMLTextAreaElement\<close> or an \<^verbatim>\<open>HTMLInputElement\<close> exactly when its tag is
  \<^verbatim>\<open>TEXTAREA\<close> or \<^verbatim>\<open>INPUT\<close>.
\<close>

definition processText_resume :: "render \<Rightarrow> response \<Rightarrow> world \<Rightarrow> world" where
  "processText_resume r resp w =
     (case currentElement r of None \<Rightarrow> w
      | Some el \<Rightarrow>
        finally_block r
          (case resp of
             Candidate improvedText \<Rightarrow>
               (if tagName (nodes w el) = ''TEXTAREA'' \<or> tagName (nodes w el) = ''INPUT''
                then update_node el (\<lambda>n. n\<lparr>elem_value := improvedText\<rparr>) w
                else update_node el (\<lambda>n. n\<lparr>textContent := improvedText\<rparr>) w)
           | _ \<Rightarrow>
               alert ''Error processing text. Please try again.''
                 (w\<lparr>trace := trace w @ [ConsoleError]\<rparr>)))"

subsection \<open>Event handlers (lines 149--212)\<close>

definition handleElementFocus :: "elem_id \<Rightarrow> world \<Rightarrow> world" where
  "handleElementFocus el w =
     (if tagName (nodes w el) = ''TEXTAREA'' \<or> tagName (nodes w el) = ''INPUT'' \<or>
         isContentEditable (nodes w el) \<or> role (nodes w el) = Some ''textbox''
      then showHelper el w else w)"

text \<open>The callback that \<^verbatim>\<open>handleElementBlur\<close> hands to \<^verbatim>\<open>setTimeout\<close> (lines 170--174).\<close>

definition blurTimeout :: "render \<Rightarrow> world \<Rightarrow> world" where
  "blurTimeout r w = (if \<not> isMenuOpen r \<and> \<not> isProcessing r then hideHelper r w else w)"

definition handleElementBlur :: "render \<Rightarrow> elem_id option \<Rightarrow> world \<Rightarrow> world" where
  "handleElementBlur r relatedTarget w =
     (case relatedTarget of
        None \<Rightarrow> w\<lparr>timers := timers w @ [r]\<rparr>
      | Some t \<Rightarrow>
          if closest w ''gemini-helper-button'' t \<noteq> None \<or>
             closest w ''gemini-helper-menu'' t \<noteq> None
          then w
          else w\<lparr>timers := timers w @ [r]\<rparr>)"

definition handleScroll :: "render \<Rightarrow> world \<Rightarrow> world" where
  "handleScroll r w =
     (case currentElement r of None \<Rightarrow> w
      | Some el \<Rightarrow>
        (case helperButtonRef w of None \<Rightarrow> w
         | Some button \<Rightarrow>
             if style_display (nodes w button) \<noteq> ''none''
             then updateHelperPosition el w else w))"

definition handleResize :: "render \<Rightarrow> world \<Rightarrow> world" where
  "handleResize r w =
     (case currentElement r of None \<Rightarrow> w
      | Some el \<Rightarrow>
        (case helperButtonRef w of None \<Rightarrow> w
         | Some button \<Rightarrow>
             if style_display (nodes w button) \<noteq> ''none''
             then updateHelperPosition el w else w))"

definition handleDocumentClick :: "render \<Rightarrow> elem_id \<Rightarrow> world \<Rightarrow> world" where
  "handleDocumentClick r target w =
     (if closest w ''gemini-helper-button'' target = None \<and>
         closest w ''gemini-helper-menu'' target = None
      then (let w1 = closeMenu w
            in if activeElement w1 \<noteq> currentElement r then hideHelper r w1 else w1)
      else w)"

definition handleButtonClick :: "render \<Rightarrow> world \<Rightarrow> world" where
  "handleButtonClick r w = (if isMenuOpen r then closeMenu w else openMenu w)"

subsection \<open>The effect (lines 214--244)\<close>

text \<open>
  The body of the effect, run for render \<open>r\<close>: it creates the two controls, stores them in
  the refs, registers the handlers of \<open>r\<close> and looks at the element that has the focus.
  \<^verbatim>\<open>document.activeElement\<close> may be \<^verbatim>\<open>null\<close>; it is then different from the body, and
  \<^verbatim>\<open>handleElementFocus\<close> throws on reading \<^verbatim>\<open>tagName\<close>.
\<close>

definition useEffect :: "render \<Rightarrow> world \<Rightarrow> error + world" where
  "useEffect r w =
     (let (button, w1) = createHelperButton w;
          (menu, w2) = createHelperMenu w1;
          w3 = w2\<lparr>helperButtonRef := Some button, helperMenuRef := Some menu,
                  listeners := Some r\<rparr>
      in if activeElement w3 \<noteq> Some (body w3)
         then (case activeElement w3 of
                 None \<Rightarrow> Inl TypeError
               | Some el \<Rightarrow> Inr (handleElementFocus el w3))
         else Inr w3)"

text \<open>
  The first render has the initial values of the three hooks (lines 8--10), and the effect
  runs after it. The dependency list of the effect is \<^verbatim>\<open>[geminiApiKey]\<close>: the effect runs
  again only in a render where the prop has changed, with the state that render sees; its
  cleanup removes the listeners of the previous run (the new run registers its own) and
  leaves the previous button and menu in the document.
\<close>

definition initial_render :: "string \<Rightarrow> render" where
  "initial_render key =
     \<lparr>geminiApiKey = key, currentElement = None, isMenuOpen = False, isProcessing = False\<rparr>"

definition mount :: "string \<Rightarrow> world \<Rightarrow> error + world" where
  "mount key w = useEffect (initial_render key) (w\<lparr>state := initial_render key\<rparr>)"

definition rerender :: "string \<Rightarrow> world \<Rightarrow> error + world" where
  "rerender key w =
     (if key = geminiApiKey (state w) then Inr w
      else useEffect ((state w)\<lparr>geminiApiKey := key\<rparr>)
             (w\<lparr>state := (state w)\<lparr>geminiApiKey := key\<rparr>\<rparr>))"

subsection \<open>Events of the page\<close>

text \<open>
  What the browser delivers to the listeners between two runs of the effect. A focus
  change is the browser's doing: \<open>FocusOut\<close> leaves the focus on the body and \<open>FocusIn\<close>
  puts it on the element, before the handler runs. The click listeners of the button and of
  the menu items stop the propagation, so \<open>Click\<close> (the document listener) is a click
  anywhere else. \<open>Timeout\<close> runs the oldest pending timer (all have the same delay) and
  \<open>Respond n\<close> settles the \<open>n\<close>-th suspended call.
\<close>

datatype event =
    FocusIn elem_id
  | FocusOut "elem_id option"
  | Click elem_id
  | ButtonClick
  | ItemClick menu_item
  | Scroll
  | Resize
  | Timeout
  | Respond nat response

fun step :: "render \<Rightarrow> event \<Rightarrow> world \<Rightarrow> world" where
  "step r (FocusIn el) w = handleElementFocus el (w\<lparr>activeElement := Some el\<rparr>)"
| "step r (FocusOut rel) w = handleElementBlur r rel (w\<lparr>activeElement := Some (body w)\<rparr>)"
| "step r (Click target) w = handleDocumentClick r target w"
| "step r ButtonClick w = handleButtonClick r w"
| "step r (ItemClick item) w = processText r (prompt_of item) w"
| "step r Scroll w = handleScroll r w"
| "step r Resize w = handleResize r w"
| "step r Timeout w =
     (case timers w of [] \<Rightarrow> w | t # ts \<Rightarrow> blurTimeout t (w\<lparr>timers := ts\<rparr>))"
| "step r (Respond n resp) w =
     (if n < length (inflight w)
      then processText_resume (inflight w ! n) resp
             (w\<lparr>inflight := take n (inflight w) @ drop (Suc n) (inflight w)\<rparr>)
      else w)"

definition dispatch :: "event \<Rightarrow> world \<Rightarrow> world" where
  "dispatch ev w = (case listeners w of None \<Rightarrow> w | Some r \<Rightarrow> step r ev w)"

fun run :: "event list \<Rightarrow> world \<Rightarrow> world" where
  "run [] w = w"
| "run (ev # evs) w = run evs (dispatch ev w)"

section \<open>Notions used in the statements\<close>

text \<open>
  The eligibility predicate in the words of the specification: a text-area, a single-line
  text input, a content-editable element, or an element with role \<^verbatim>\<open>textbox\<close>. Every
  \<^verbatim>\<open>input\<close> whose type is not one of the types without a text field counts as a single-line
  text input here.
\<close>

definition single_line_text_input :: "element \<Rightarrow> bool" where
  "single_line_text_input n =
     (tagName n = ''INPUT'' \<and>
      inputType n \<notin> set [''checkbox'', ''radio'', ''button'', ''submit'', ''reset'', ''image'',
                          ''file'', ''range'', ''color'', ''hidden''])"

definition spec_eligible :: "element \<Rightarrow> bool" where
  "spec_eligible n =
     (tagName n = ''TEXTAREA'' \<or> single_line_text_input n \<or> isContentEditable n \<or>
      role n = Some ''textbox'')"

text \<open>A Target is focused: the state has a current element and it holds the document focus.\<close>

definition target_focused :: "world \<Rightarrow> bool" where
  "target_focused w =
     (case currentElement (state w) of None \<Rightarrow> False | Some el \<Rightarrow> activeElement w = Some el)"

text \<open>
  The invariant of the specification's data model, as it is written there: the trigger is
  hidden only when neither \<open>menuOpen\<close> nor \<open>busy\<close> holds and no Target is focused, and the
  menu is displayed iff \<open>menuOpen\<close>.
\<close>

definition stated_invariant :: "world \<Rightarrow> bool" where
  "stated_invariant w =
     (case helperButtonRef w of None \<Rightarrow> True
      | Some button \<Rightarrow>
        (case helperMenuRef w of None \<Rightarrow> True
         | Some menu \<Rightarrow>
             (style_display (nodes w button) = ''none'' \<longrightarrow>
                \<not> isMenuOpen (state w) \<and> \<not> isProcessing (state w) \<and> \<not> target_focused w) \<and>
             ((style_display (nodes w menu) = ''block'') = isMenuOpen (state w))))"

text \<open>Its second half alone (the two controls being two nodes).\<close>

definition menu_invariant :: "world \<Rightarrow> bool" where
  "menu_invariant w =
     (case helperMenuRef w of None \<Rightarrow> \<not> isMenuOpen (state w)
      | Some menu \<Rightarrow>
          helperButtonRef w \<noteq> Some menu \<and>
          ((style_display (nodes w menu) = ''block'') = isMenuOpen (state w)))"

definition failed :: "response \<Rightarrow> bool" where
  "failed resp = (case resp of Candidate t \<Rightarrow> False | _ \<Rightarrow> True)"

section \<open>An example page\<close>

text \<open>
  A body (node 0) with a text input holding \<^verbatim>\<open>helo wrold\<close> (1), a content-editable block
  with the same text (2), a checkbox (3), a link (4) and a second editable block with role
  \<^verbatim>\<open>textbox\<close> (5). Nothing has the focus. The first effect creates the button as node 10
  and the menu as node 11; a second run of the effect creates nodes 12 and 13.
\<close>

definition example_page :: world where
  "example_page = \<lparr>nodes = (\<lambda>_. blank)
       (0 := blank\<lparr>tagName := ''BODY''\<rparr>,
        1 := blank\<lparr>tagName := ''INPUT'', inputType := ''text'', elem_value := ''helo wrold'',
               ancestors := [0], rect_top := 100, rect_right := 300\<rparr>,
        2 := blank\<lparr>tagName := ''DIV'', isContentEditable := True,
               textContent := ''helo wrold'', ancestors := [0], rect_top := 200,
               rect_right := 300\<rparr>,
        3 := blank\<lparr>tagName := ''INPUT'', inputType := ''checkbox'', elem_value := ''on'',
               ancestors := [0], rect_top := 300, rect_right := 40\<rparr>,
        4 := blank\<lparr>tagName := ''A'', ancestors := [0], rect_top := 400, rect_right := 90\<rparr>,
        5 := blank\<lparr>tagName := ''DIV'', isContentEditable := True, role := Some ''textbox'',
               textContent := ''teh end'', ancestors := [0], rect_top := 500,
               rect_right := 300\<rparr>),
     fresh = 10, body = 0, activeElement = Some 0, scrollX = 0, scrollY = 7,
     state = initial_render [], helperButtonRef = None, helperMenuRef = None,
     listeners = None, timers = [], inflight = [], trace = []\<rparr>"

definition mounted :: "string \<Rightarrow> world" where
  "mounted key = (case mount key example_page of Inr w \<Rightarrow> w | Inl e \<Rightarrow> example_page)"

definition key_changed :: "string \<Rightarrow> world \<Rightarrow> world" where
  "key_changed key w = (case rerender key w of Inr w' \<Rightarrow> w' | Inl e \<Rightarrow> w)"

text \<open>
  The component mounts before the key is known, the user focuses \<open>el\<close>, then the key
  arrives: the effect runs again, in a render whose current element is \<open>el\<close>.
\<close>

definition key_loaded_on :: "elem_id \<Rightarrow> world" where
  "key_loaded_on el = key_changed ''key'' (run [FocusIn el] (mounted []))"

text \<open>The same with a key that is taken away.\<close>

definition key_removed_on :: "elem_id \<Rightarrow> world" where
  "key_removed_on el = key_changed [] (run [FocusIn el] (mounted ''key''))"

definition target_render :: "string \<Rightarrow> elem_id \<Rightarrow> render" where
  "target_render key el =
     \<lparr>geminiApiKey = key, currentElement = Some el, isMenuOpen = False, isProcessing = False\<rparr>"

definition focused_page :: "elem_id \<Rightarrow> world" where
  "focused_page el = example_page\<lparr>activeElement := Some el\<rparr>"

text \<open>The key has arrived with node 2 as current element, the menu was opened and an item
  clicked: one call is suspended.\<close>

definition request_in_flight :: world where
  "request_in_flight = run [ButtonClick, ItemClick GrammarOption] (key_loaded_on 2)"

text \<open>
  The key has arrived with node 2 as current element; the user then moves to node 5, which
  becomes the current element and keeps the focus, opens the menu and clicks an item.
\<close>

definition moved_to_other_target :: world where
  "moved_to_other_target =
     run [FocusOut (Some 5), FocusIn 5, ButtonClick, ItemClick GrammarOption] (key_loaded_on 2)"

section \<open>What each operation leaves alone\<close>

lemma update_node_proj [simp]:
  "nodes (update_node i f w) = (nodes w)(i := f (nodes w i))"
  "fresh (update_node i f w) = fresh w"
  "body (update_node i f w) = body w"
  "activeElement (update_node i f w) = activeElement w"
  "scrollX (update_node i f w) = scrollX w"
  "scrollY (update_node i f w) = scrollY w"
  "state (update_node i f w) = state w"
  "helperButtonRef (update_node i f w) = helperButtonRef w"
  "helperMenuRef (update_node i f w) = helperMenuRef w"
  "listeners (update_node i f w) = listeners w"
  "timers (update_node i f w) = timers w"
  "inflight (update_node i f w) = inflight w"
  "trace (update_node i f w) = trace w"
  by (simp_all add: update_node_def)

lemma setCurrentElement_proj [simp]:
  "nodes (setCurrentElement e w) = nodes w"
  "activeElement (setCurrentElement e w) = activeElement w"
  "scrollX (setCurrentElement e w) = scrollX w"
  "scrollY (setCurrentElement e w) = scrollY w"
  "state (setCurrentElement e w) = (state w)\<lparr>currentElement := e\<rparr>"
  "helperButtonRef (setCurrentElement e w) = helperButtonRef w"
  "helperMenuRef (setCurrentElement e w) = helperMenuRef w"
  "listeners (setCurrentElement e w) = listeners w"
  "timers (setCurrentElement e w) = timers w"
  "inflight (setCurrentElement e w) = inflight w"
  "trace (setCurrentElement e w) = trace w"
  by (simp_all add: setCurrentElement_def)

lemma setIsMenuOpen_proj [simp]:
  "nodes (setIsMenuOpen b w) = nodes w"
  "activeElement (setIsMenuOpen b w) = activeElement w"
  "state (setIsMenuOpen b w) = (state w)\<lparr>isMenuOpen := b\<rparr>"
  "helperButtonRef (setIsMenuOpen b w) = helperButtonRef w"
  "helperMenuRef (setIsMenuOpen b w) = helperMenuRef w"
  "listeners (setIsMenuOpen b w) = listeners w"
  "timers (setIsMenuOpen b w) = timers w"
  "inflight (setIsMenuOpen b w) = inflight w"
  "trace (setIsMenuOpen b w) = trace w"
  by (simp_all add: setIsMenuOpen_def)

lemma setIsProcessing_proj [simp]:
  "nodes (setIsProcessing b w) = nodes w"
  "activeElement (setIsProcessing b w) = activeElement w"
  "state (setIsProcessing b w) = (state w)\<lparr>isProcessing := b\<rparr>"
  "helperButtonRef (setIsProcessing b w) = helperButtonRef w"
  "helperMenuRef (setIsProcessing b w) = helperMenuRef w"
  "listeners (setIsProcessing b w) = listeners w"
  "timers (setIsProcessing b w) = timers w"
  "inflight (setIsProcessing b w) = inflight w"
  "trace (setIsProcessing b w) = trace w @ [SetIsProcessing b]"
  by (simp_all add: setIsProcessing_def)

lemma alert_proj [simp]:
  "nodes (alert msg w) = nodes w"
  "activeElement (alert msg w) = activeElement w"
  "state (alert msg w) = state w"
  "helperButtonRef (alert msg w) = helperButtonRef w"
  "helperMenuRef (alert msg w) = helperMenuRef w"
  "listeners (alert msg w) = listeners w"
  "timers (alert msg w) = timers w"
  "inflight (alert msg w) = inflight w"
  "trace (alert msg w) = trace w @ [Alert msg]"
  by (simp_all add: alert_def)

lemma closeMenu_proj [simp]:
  "activeElement (closeMenu w) = activeElement w"
  "helperButtonRef (closeMenu w) = helperButtonRef w"
  "helperMenuRef (closeMenu w) = helperMenuRef w"
  "listeners (closeMenu w) = listeners w"
  "timers (closeMenu w) = timers w"
  "inflight (closeMenu w) = inflight w"
  "trace (closeMenu w) = trace w"
  "isProcessing (state (closeMenu w)) = isProcessing (state w)"
  "currentElement (state (closeMenu w)) = currentElement (state w)"
  by (simp_all add: closeMenu_def split: option.splits)

lemma openMenu_proj [simp]:
  "activeElement (openMenu w) = activeElement w"
  "helperButtonRef (openMenu w) = helperButtonRef w"
  "helperMenuRef (openMenu w) = helperMenuRef w"
  "listeners (openMenu w) = listeners w"
  "timers (openMenu w) = timers w"
  "inflight (openMenu w) = inflight w"
  "trace (openMenu w) = trace w"
  "isProcessing (state (openMenu w)) = isProcessing (state w)"
  "currentElement (state (openMenu w)) = currentElement (state w)"
  by (simp_all add: openMenu_def split: option.splits)

lemma hideHelper_proj [simp]:
  "activeElement (hideHelper r w) = activeElement w"
  "helperButtonRef (hideHelper r w) = helperButtonRef w"
  "helperMenuRef (hideHelper r w) = helperMenuRef w"
  "listeners (hideHelper r w) = listeners w"
  "timers (hideHelper r w) = timers w"
  "inflight (hideHelper r w) = inflight w"
  "trace (hideHelper r w) = trace w"
  "isProcessing (state (hideHelper r w)) = isProcessing (state w)"
  "currentElement (state (hideHelper r w)) = currentElement (state w)"
  by (simp_all add: hideHelper_def split: option.splits)

lemma updateHelperPosition_proj [simp]:
  "activeElement (updateHelperPosition el w) = activeElement w"
  "state (updateHelperPosition el w) = state w"
  "helperButtonRef (updateHelperPosition el w) = helperButtonRef w"
  "helperMenuRef (updateHelperPosition el w) = helperMenuRef w"
  "listeners (updateHelperPosition el w) = listeners w"
  "timers (updateHelperPosition el w) = timers w"
  "inflight (updateHelperPosition el w) = inflight w"
  "trace (updateHelperPosition el w) = trace w"
  by (simp_all add: updateHelperPosition_def Let_def split: option.splits)

lemma showHelper_proj [simp]:
  "activeElement (showHelper el w) = activeElement w"
  "state (showHelper el w) = (state w)\<lparr>currentElement := Some el\<rparr>"
  "helperButtonRef (showHelper el w) = helperButtonRef w"
  "helperMenuRef (showHelper el w) = helperMenuRef w"
  "listeners (showHelper el w) = listeners w"
  "timers (showHelper el w) = timers w"
  "inflight (showHelper el w) = inflight w"
  "trace (showHelper el w) = trace w"
  by (simp_all add: showHelper_def)

lemma finally_block_proj [simp]:
  "activeElement (finally_block r w) = activeElement w"
  "helperButtonRef (finally_block r w) = helperButtonRef w"
  "helperMenuRef (finally_block r w) = helperMenuRef w"
  "listeners (finally_block r w) = listeners w"
  "timers (finally_block r w) = timers w"
  "inflight (finally_block r w) = inflight w"
  "trace (finally_block r w) = trace w @ [SetIsProcessing False]"
  "isProcessing (state (finally_block r w)) = False"
  "currentElement (state (finally_block r w)) = currentElement (state w)"
  by (simp_all add: finally_block_def Let_def split: option.splits)

lemma processText_proj [simp]:
  "activeElement (processText r p w) = activeElement w"
  "helperButtonRef (processText r p w) = helperButtonRef w"
  "helperMenuRef (processText r p w) = helperMenuRef w"
  "listeners (processText r p w) = listeners w"
  "timers (processText r p w) = timers w"
  "currentElement (state (processText r p w)) = currentElement (state w)"
  by (simp_all add: processText_def Let_def split: option.splits)

lemma processText_resume_proj [simp]:
  "activeElement (processText_resume r resp w) = activeElement w"
  "helperButtonRef (processText_resume r resp w) = helperButtonRef w"
  "helperMenuRef (processText_resume r resp w) = helperMenuRef w"
  "listeners (processText_resume r resp w) = listeners w"
  "timers (processText_resume r resp w) = timers w"
  "inflight (processText_resume r resp w) = inflight w"
  "currentElement (state (processText_resume r resp w)) = currentElement (state w)"
  by (simp_all add: processText_resume_def split: option.splits response.splits)

lemma handlers_listeners [simp]:
  "listeners (handleElementFocus el w) = listeners w"
  "listeners (blurTimeout r w) = listeners w"
  "listeners (handleElementBlur r rel w) = listeners w"
  "listeners (handleScroll r w) = listeners w"
  "listeners (handleResize r w) = listeners w"
  "listeners (handleDocumentClick r t w) = listeners w"
  "listeners (handleButtonClick r w) = listeners w"
  by (simp_all add: handleElementFocus_def blurTimeout_def handleElementBlur_def handleScroll_def
        handleResize_def handleDocumentClick_def handleButtonClick_def Let_def
      split: option.splits)

lemma step_listeners: "listeners (step r ev w) = listeners w"
  by (cases ev) (simp_all split: list.splits)

lemma run_listeners: "listeners (run evs w) = listeners w"
  by (induction evs arbitrary: w) (simp_all add: dispatch_def step_listeners split: option.splits)

lemma closeMenu_text [simp]:
  "textContent (nodes (closeMenu w) i) = textContent (nodes w i)"
  "elem_value (nodes (closeMenu w) i) = elem_value (nodes w i)"
  by (simp_all add: closeMenu_def split: option.splits)

lemma hideHelper_text [simp]:
  "textContent (nodes (hideHelper r w) i) = textContent (nodes w i)"
  "elem_value (nodes (hideHelper r w) i) = elem_value (nodes w i)"
  by (simp_all add: hideHelper_def split: option.splits)

lemma finally_block_text:
  "helperButtonRef w \<noteq> Some i \<Longrightarrow>
     textContent (nodes (finally_block r w) i) = textContent (nodes w i)"
  "elem_value (nodes (finally_block r w) i) = elem_value (nodes w i)"
  by (simp_all add: finally_block_def Let_def split: option.splits)

lemma processText_text:
  "helperButtonRef w \<noteq> Some i \<Longrightarrow>
     textContent (nodes (processText r prompt w) i) = textContent (nodes w i)"
  "elem_value (nodes (processText r prompt w) i) = elem_value (nodes w i)"
  by (simp_all add: processText_def finally_block_text Let_def split: option.splits)

section \<open>The effect and the render it registers\<close>

lemma useEffect_returns:
  "activeElement w = Some a \<Longrightarrow> \<exists>w'. useEffect r w = Inr w'"
  by (simp add: useEffect_def createHelperButton_def createHelperMenu_def Let_def)

lemma useEffect_listeners: "useEffect r w = Inr w' \<Longrightarrow> listeners w' = Some r"
  by (auto simp: useEffect_def createHelperButton_def createHelperMenu_def Let_def
      split: if_splits option.splits)

lemma mount_listeners: "mount key w = Inr w' \<Longrightarrow> listeners w' = Some (initial_render key)"
  by (simp add: mount_def useEffect_listeners)

lemma mount_mounted: "mount key example_page = Inr (mounted key)"
proof -
  have "activeElement (example_page\<lparr>state := initial_render key\<rparr>) = Some 0"
    by (simp add: example_page_def)
  from useEffect_returns [OF this]
  obtain w' where "mount key example_page = Inr w'"
    by (auto simp: mount_def)
  then show ?thesis by (simp add: mounted_def)
qed

lemma rerender_key_changed:
  assumes "activeElement w = Some a"
  shows "rerender key w = Inr (key_changed key w)"
proof (cases "key = geminiApiKey (state w)")
  case True
  then show ?thesis by (simp add: rerender_def key_changed_def)
next
  case False
  have "activeElement (w\<lparr>state := (state w)\<lparr>geminiApiKey := key\<rparr>\<rparr>) = Some a"
    using assms by simp
  from useEffect_returns [OF this]
  obtain w' where "rerender key w = Inr w'"
    using False by (auto simp: rerender_def)
  then show ?thesis by (simp add: key_changed_def)
qed

text \<open>
  The handlers that the first effect registers belong to the first render, in which there
  is no current element, the menu is closed and nothing is being processed. They stay
  registered whatever the page does, so the trigger always opens the menu and a menu item
  never starts a transform.
\<close>

lemma handleButtonClick_initial: "handleButtonClick (initial_render key) w = openMenu w"
  by (simp add: handleButtonClick_def initial_render_def)

lemma processText_initial: "processText (initial_render key) prompt w = w"
  by (simp add: processText_def initial_render_def)

lemma trigger_after_mount:
  assumes "mount key p = Inr w"
  shows "dispatch ButtonClick (run evs w) = openMenu (run evs w)"
    and "dispatch (ItemClick item) (run evs w) = run evs w"
  using mount_listeners [OF assms]
  by (simp_all add: dispatch_def run_listeners handleButtonClick_initial processText_initial)

text \<open>The render that the second effect of the examples registers.\<close>

lemma key_loaded_on_listeners:
  "listeners (key_loaded_on 1) = Some (target_render ''key'' 1)"
  "listeners (key_loaded_on 2) = Some (target_render ''key'' 2)"
  "listeners (key_removed_on 2) = Some (target_render [] 2)"
  by code_simp+

lemma key_loaded_on_rerender:
  "rerender ''key'' (run [FocusIn 2] (mounted [])) = Inr (key_loaded_on 2)"
proof -
  have "activeElement (run [FocusIn 2] (mounted [])) = Some 2" by code_simp
  from rerender_key_changed [OF this] show ?thesis by (simp add: key_loaded_on_def)
qed

section \<open>Writing the result into the element\<close>

text \<open>
  \<^verbatim>\<open>processText\<close> reads the text to send from \<^verbatim>\<open>textContent\<close>, whatever the element is, and
  returns before doing anything when that is empty.
\<close>

lemma processText_empty_text:
  "currentElement r = Some el \<Longrightarrow> textContent (nodes w el) = [] \<Longrightarrow>
     processText r prompt w = w"
  by (simp add: processText_def)

text \<open>
  When the service answers with a text, the text goes to the \<^verbatim>\<open>value\<close> of a text-area or
  input and to the text content of any other element (the element being the one of the
  render that made the call, and not the button itself).
\<close>

lemma processText_resume_success:
  assumes "currentElement r = Some el" and "helperButtonRef w \<noteq> Some el"
  shows "if tagName (nodes w el) = ''TEXTAREA'' \<or> tagName (nodes w el) = ''INPUT''
         then elem_value (nodes (processText_resume r (Candidate t) w) el) = t \<and>
              textContent (nodes (processText_resume r (Candidate t) w) el) =
                textContent (nodes w el)
         else textContent (nodes (processText_resume r (Candidate t) w) el) = t \<and>
              elem_value (nodes (processText_resume r (Candidate t) w) el) =
                elem_value (nodes w el)"
  using assms by (simp add: processText_resume_def finally_block_text)

text \<open>
  Claim C1. For a Target that is a single-line text input whose value is \<^verbatim>\<open>helo wrold\<close>,
  activating ``Correct Grammar'' with the service returning \<^verbatim>\<open>Hello world.\<close> makes the value
  of the input \<^verbatim>\<open>Hello world.\<close>.

  The code does not do this. In the example the input (node 1) has the focus and is the
  current element, also in the render whose handlers are registered; its value is
  \<^verbatim>\<open>helo wrold\<close> and, as for every input, its text content is empty. The menu is opened and
  ``Correct Grammar'' is clicked: \<^verbatim>\<open>processText\<close> finds no text and returns at line 54, so
  no request is made, the menu stays open, and the value is unchanged. Without the second
  run of the effect the click does nothing either, there because the registered
  \<^verbatim>\<open>processText\<close> has no current element (line 51).
\<close>

theorem correct_grammar_on_input_changes_nothing:
  "tagName (nodes (key_loaded_on 1) 1) = ''INPUT'' \<and>
   elem_value (nodes (key_loaded_on 1) 1) = ''helo wrold'' \<and>
   textContent (nodes (key_loaded_on 1) 1) = [] \<and>
   activeElement (key_loaded_on 1) = Some 1 \<and>
   currentElement (state (key_loaded_on 1)) = Some 1 \<and>
   listeners (key_loaded_on 1) = Some (target_render ''key'' 1) \<and>
   isMenuOpen (state (run [ButtonClick] (key_loaded_on 1))) \<and>
   trace (run [ButtonClick, ItemClick GrammarOption] (key_loaded_on 1)) = [] \<and>
   inflight (run [ButtonClick, ItemClick GrammarOption] (key_loaded_on 1)) = [] \<and>
   isMenuOpen (state (run [ButtonClick, ItemClick GrammarOption] (key_loaded_on 1))) \<and>
   elem_value (nodes (run [ButtonClick, ItemClick GrammarOption] (key_loaded_on 1)) 1) =
     ''helo wrold'' \<and>
   trace (run [FocusIn 1, ButtonClick, ItemClick GrammarOption] (mounted ''key'')) = [] \<and>
   elem_value (nodes (run [FocusIn 1, ButtonClick, ItemClick GrammarOption] (mounted ''key'')) 1) =
     ''helo wrold''"
  by code_simp

section \<open>The trigger\<close>

text \<open>
  Claim C2. Each activation of the trigger toggles the menu (open to closed, closed to
  open), so that an even number of activations leaves the menu as it was.

  The code does not do this. \<^verbatim>\<open>handleButtonClick\<close> tests \<^verbatim>\<open>isMenuOpen\<close>, but the listener on
  the button is the one of the render in which the effect ran, where \<^verbatim>\<open>isMenuOpen\<close> is the
  constant \<^verbatim>\<open>false\<close> (lemma \<open>trigger_after_mount\<close>). In the example the menu (node 11) is
  closed, the first activation opens it and the second leaves it open.
\<close>

theorem trigger_twice_leaves_menu_open:
  "helperMenuRef (run [FocusIn 1] (mounted ''key'')) = Some 11 \<and>
   \<not> isMenuOpen (state (run [FocusIn 1] (mounted ''key''))) \<and>
   style_display (nodes (run [FocusIn 1] (mounted ''key'')) 11) = ''none'' \<and>
   isMenuOpen (state (run [FocusIn 1, ButtonClick] (mounted ''key''))) \<and>
   style_display (nodes (run [FocusIn 1, ButtonClick] (mounted ''key'')) 11) = ''block'' \<and>
   isMenuOpen (state (run [FocusIn 1, ButtonClick, ButtonClick] (mounted ''key''))) \<and>
   style_display (nodes (run [FocusIn 1, ButtonClick, ButtonClick] (mounted ''key'')) 11) =
     ''block''"
  by code_simp

section \<open>A missing key\<close>

text \<open>
  Claim C3, as amended. With no key, a call of \<^verbatim>\<open>processText\<close> that has a current element with
  non-empty text content shows the notification and makes no request; it sets the busy flag
  on entry (line 56 comes before the test of the key at line 64) and clears it in the
  \<^verbatim>\<open>finally\<close> block, so the flag is false again when the call returns.
\<close>

theorem processText_without_key:
  assumes "geminiApiKey r = []" and "currentElement r = Some el"
    and "textContent (nodes w el) \<noteq> []"
  shows "trace (processText r prompt w) =
           trace w @ [SetIsProcessing True,
                      Alert ''Please set your Gemini API key in the extension settings'',
                      SetIsProcessing False] \<and>
         inflight (processText r prompt w) = inflight w \<and>
         \<not> isProcessing (state (processText r prompt w))"
  using assms by (simp add: processText_def Let_def split: option.splits)

theorem processText_without_key_witness:
  "geminiApiKey (target_render [] 2) = [] \<and>
   currentElement (target_render [] 2) = Some 2 \<and>
   textContent (nodes (run [ButtonClick] (key_removed_on 2)) 2) = ''helo wrold'' \<and>
   trace (processText (target_render [] 2) (prompt_of ClarityOption)
            (run [ButtonClick] (key_removed_on 2))) =
     [SetIsProcessing True,
      Alert ''Please set your Gemini API key in the extension settings'',
      SetIsProcessing False] \<and>
   inflight (processText (target_render [] 2) (prompt_of ClarityOption)
               (run [ButtonClick] (key_removed_on 2))) = [] \<and>
   \<not> isProcessing (state (processText (target_render [] 2) (prompt_of ClarityOption)
                             (run [ButtonClick] (key_removed_on 2))))"
proof -
  have h1: "geminiApiKey (target_render [] 2) = []" by code_simp
  have h2: "currentElement (target_render [] 2) = Some 2" by code_simp
  have t: "textContent (nodes (run [ButtonClick] (key_removed_on 2)) 2) = ''helo wrold''"
    by code_simp
  have h3: "textContent (nodes (run [ButtonClick] (key_removed_on 2)) 2) \<noteq> []"
    by code_simp
  have e: "trace (run [ButtonClick] (key_removed_on 2)) = []"
    "inflight (run [ButtonClick] (key_removed_on 2)) = []"
    by code_simp+
  from processText_without_key [OF h1 h2 h3, of "prompt_of ClarityOption"]
  show ?thesis unfolding e using h1 h2 t by simp
qed

text \<open>
  As stated, C3 says that the busy flag is never set during such a call. In the example the
  registered render has no key and node 2, with text, as current element; the menu is
  opened and an item clicked, and the flag is set.
\<close>

theorem missing_key_sets_busy:
  "SetIsProcessing True \<in>
     set (trace (run [ButtonClick, ItemClick GrammarOption] (key_removed_on 2)))"
  by code_simp

section \<open>Which elements get the overlay\<close>

text \<open>
  Claim C4, as amended. On a focus event the element becomes the current element, and the
  trigger is shown at its top right corner, if and only if its tag is \<^verbatim>\<open>TEXTAREA\<close> or
  \<^verbatim>\<open>INPUT\<close> (an input of any type), or it is content-editable, or its role is \<^verbatim>\<open>textbox\<close>;
  on any other element the event changes nothing.
\<close>

theorem handleElementFocus_eligibility:
  assumes "helperButtonRef w = Some button" and "helperMenuRef w = Some menu"
    and "button \<noteq> menu"
  shows "if tagName (nodes w el) = ''TEXTAREA'' \<or> tagName (nodes w el) = ''INPUT'' \<or>
            isContentEditable (nodes w el) \<or> role (nodes w el) = Some ''textbox''
         then currentElement (state (handleElementFocus el w)) = Some el \<and>
              style_display (nodes (handleElementFocus el w) button) = ''flex'' \<and>
              style_left (nodes (handleElementFocus el w) button) =
                Some (rect_right (nodes w el) + scrollX w - 32) \<and>
              style_top (nodes (handleElementFocus el w) button) =
                Some (rect_top (nodes w el) + scrollY w)
         else handleElementFocus el w = w"
  using assms
  by (simp add: handleElementFocus_def showHelper_def updateHelperPosition_def Let_def)

theorem handleElementFocus_eligibility_witness:
  "helperButtonRef (mounted ''key'') = Some 10 \<and> helperMenuRef (mounted ''key'') = Some 11 \<and>
   tagName (nodes (mounted ''key'') 1) = ''INPUT'' \<and>
   currentElement (state (handleElementFocus 1 (mounted ''key''))) = Some 1 \<and>
   style_display (nodes (handleElementFocus 1 (mounted ''key'')) 10) = ''flex'' \<and>
   style_left (nodes (handleElementFocus 1 (mounted ''key'')) 10) = Some 268 \<and>
   style_top (nodes (handleElementFocus 1 (mounted ''key'')) 10) = Some 107 \<and>
   tagName (nodes (mounted ''key'') 4) = ''A'' \<and>
   handleElementFocus 4 (mounted ''key'') = mounted ''key''"
proof -
  have b: "helperButtonRef (mounted ''key'') = Some 10" by code_simp
  have m: "helperMenuRef (mounted ''key'') = Some 11" by code_simp
  have ne: "(10::nat) \<noteq> 11" by simp
  have e1: "tagName (nodes (mounted ''key'') 1) = ''INPUT''" by code_simp
  have g1: "rect_right (nodes (mounted ''key'') 1) = 300"
    "rect_top (nodes (mounted ''key'') 1) = 100"
    "scrollX (mounted ''key'') = 0" "scrollY (mounted ''key'') = 7"
    by code_simp+
  have e4: "tagName (nodes (mounted ''key'') 4) = ''A''"
    "\<not> isContentEditable (nodes (mounted ''key'') 4)" "role (nodes (mounted ''key'') 4) = None"
    by code_simp+
  from handleElementFocus_eligibility [OF b m ne, of 1]
    handleElementFocus_eligibility [OF b m ne, of 4]
  show ?thesis using b m e1 g1 e4 by simp
qed

text \<open>
  As stated, C4 admits among the inputs only the single-line text inputs. A checkbox
  (node 3) is none, and it becomes the current element with the trigger shown.
\<close>

theorem checkbox_becomes_target:
  "tagName (nodes (mounted ''key'') 3) = ''INPUT'' \<and>
   inputType (nodes (mounted ''key'') 3) = ''checkbox'' \<and>
   \<not> spec_eligible (nodes (mounted ''key'') 3) \<and>
   currentElement (state (run [FocusIn 3] (mounted ''key''))) = Some 3 \<and>
   style_display (nodes (run [FocusIn 3] (mounted ''key'')) 10) = ''flex''"
  by code_simp

section \<open>The end of a transform\<close>

text \<open>
  What the \<^verbatim>\<open>finally\<close> block does when the call belongs to a render in which the menu was
  closed and nothing was being processed: the button gets its letter back, the busy flag is
  cleared, and the overlay is hidden at once if the focus is not on the current element of
  that render, and left as it is otherwise. (In a render that saw the menu open or a
  transform running, \<^verbatim>\<open>hideHelper\<close> returns at line 132 and nothing is hidden.)
\<close>

lemma processText_resume_finally:
  assumes "currentElement r = Some el" and "\<not> isMenuOpen r" and "\<not> isProcessing r"
    and "helperButtonRef w = Some button" and "helperMenuRef w = Some menu"
  shows "textContent (nodes (processText_resume r resp w) button) = ''G'' \<and>
         ''gemini-helper-loading'' \<notin> set (className (nodes (processText_resume r resp w) button)) \<and>
         \<not> isProcessing (state (processText_resume r resp w)) \<and>
         timers (processText_resume r resp w) = timers w \<and>
         (if activeElement w \<noteq> Some el
          then style_display (nodes (processText_resume r resp w) button) = ''none'' \<and>
               style_display (nodes (processText_resume r resp w) menu) = ''none'' \<and>
               \<not> isMenuOpen (state (processText_resume r resp w))
          else style_display (nodes (processText_resume r resp w) button) =
                 style_display (nodes w button) \<and>
               style_display (nodes (processText_resume r resp w) menu) =
                 style_display (nodes w menu) \<and>
               isMenuOpen (state (processText_resume r resp w)) = isMenuOpen (state w))"
  using assms
  by (cases resp)
     (simp_all add: processText_resume_def finally_block_def hideHelper_def closeMenu_def
        classList_remove_def Let_def)

text \<open>
  Claim C5. After every transform completion the trigger's idle content is restored and the
  busy flag cleared; then the overlay is hidden at once if the focus is not on the Target,
  and stays visible and idle if the Target still holds the focus.

  The code does not do this. The comparison at line 101 is with the \<^verbatim>\<open>currentElement\<close> of
  the render that registered the handlers, not with the current element of the component.
  In the example that render has node 2; the user has moved to node 5, which is the current
  element and holds the focus from before the call until after the answer. While the call
  is suspended the trigger (node 12) is shown; when the answer arrives the trigger is
  hidden, although the Target has the focus. (The answer is also written into node 2, and
  node 5 keeps its text.)
\<close>

theorem completion_hides_overlay_of_focused_target:
  "listeners moved_to_other_target = Some (target_render ''key'' 2) \<and>
   helperButtonRef moved_to_other_target = Some 12 \<and>
   currentElement (state moved_to_other_target) = Some 5 \<and>
   activeElement moved_to_other_target = Some 5 \<and>
   isProcessing (state moved_to_other_target) \<and>
   style_display (nodes moved_to_other_target 12) = ''flex'' \<and>
   currentElement (state (run [Respond 0 (Candidate ''Hello world.'')] moved_to_other_target)) =
     Some 5 \<and>
   activeElement (run [Respond 0 (Candidate ''Hello world.'')] moved_to_other_target) =
     Some 5 \<and>
   \<not> isProcessing (state (run [Respond 0 (Candidate ''Hello world.'')]
                           moved_to_other_target)) \<and>
   style_display (nodes (run [Respond 0 (Candidate ''Hello world.'')] moved_to_other_target) 12) =
     ''none'' \<and>
   textContent (nodes (run [Respond 0 (Candidate ''Hello world.'')] moved_to_other_target) 5) =
     ''teh end'' \<and>
   textContent (nodes (run [Respond 0 (Candidate ''Hello world.'')] moved_to_other_target) 2) =
     ''Hello world.''"
  by code_simp

section \<open>A failed transform\<close>

lemma processText_resume_failed:
  assumes "currentElement r = Some el" and "failed resp"
  shows "processText_resume r resp w =
           finally_block r (alert ''Error processing text. Please try again.''
             (w\<lparr>trace := trace w @ [ConsoleError]\<rparr>))"
  using assms by (cases resp) (simp_all add: processText_resume_def failed_def)

text \<open>
  Claim C6. When a transform fails (the request is rejected, the response is not a success,
  or its body cannot be read), the text of the Target is left as it was, a notification is
  shown and the busy flag is cleared.

  This holds for the whole call, whichever render it belongs to: neither the part before
  the request nor the part after the failure changes the text content or the value of any
  element \<open>i\<close> other than the button (whose letter is put back); the error is logged, the
  notification shown and the flag cleared.
\<close>

theorem processText_failure:
  assumes "currentElement r = Some el" and "failed resp" and "helperButtonRef w \<noteq> Some i"
  shows "textContent (nodes (processText r prompt w) i) = textContent (nodes w i) \<and>
         elem_value (nodes (processText r prompt w) i) = elem_value (nodes w i) \<and>
         textContent (nodes (processText_resume r resp w) i) = textContent (nodes w i) \<and>
         elem_value (nodes (processText_resume r resp w) i) = elem_value (nodes w i) \<and>
         trace (processText_resume r resp w) =
           trace w @ [ConsoleError, Alert ''Error processing text. Please try again.'',
                      SetIsProcessing False] \<and>
         \<not> isProcessing (state (processText_resume r resp w))"
  using assms(3)
  by (simp add: processText_resume_failed [OF assms(1,2)] processText_text finally_block_text)

theorem processText_failure_witness:
  "currentElement (target_render ''key'' 2) = Some 2 \<and> failed NotOk \<and>
   helperButtonRef request_in_flight = Some 12 \<and>
   isProcessing (state request_in_flight) \<and>
   textContent (nodes (processText_resume (target_render ''key'' 2) NotOk request_in_flight) 2) =
     ''helo wrold'' \<and>
   elem_value (nodes (processText_resume (target_render ''key'' 2) NotOk request_in_flight) 2) =
     [] \<and>
   trace (processText_resume (target_render ''key'' 2) NotOk request_in_flight) =
     trace request_in_flight @
       [ConsoleError, Alert ''Error processing text. Please try again.'',
        SetIsProcessing False] \<and>
   \<not> isProcessing (state (processText_resume (target_render ''key'' 2) NotOk
                             request_in_flight))"
proof -
  have h1: "currentElement (target_render ''key'' 2) = Some 2" by code_simp
  have h2: "failed NotOk" by code_simp
  have b: "helperButtonRef request_in_flight = Some 12" by code_simp
  have h3: "helperButtonRef request_in_flight \<noteq> Some 2" by code_simp
  have p: "isProcessing (state request_in_flight)" by code_simp
  have t: "textContent (nodes request_in_flight 2) = ''helo wrold''"
    "elem_value (nodes request_in_flight 2) = []"
    by code_simp+
  from processText_failure [OF h1 h2 h3, of "prompt_of GrammarOption"]
  show ?thesis using h1 h2 b p t by simp
qed

section \<open>Losing the focus\<close>

text \<open>
  A blur towards the button, the menu or something inside them is ignored: no timer is
  started and nothing changes.
\<close>

lemma handleElementBlur_into_controls:
  "closest w ''gemini-helper-button'' t \<noteq> None \<or> closest w ''gemini-helper-menu'' t \<noteq> None
     \<Longrightarrow> handleElementBlur r (Some t) w = w"
  by (auto simp: handleElementBlur_def)

text \<open>
  Claim C7. A blur towards the trigger or the menu is ignored; a blur towards an unrelated
  element only schedules a hide after the delay, and that hide is skipped if, when the
  delay is over, the menu is open or a transform is in progress.

  The code does not do the last part. The callback tests \<^verbatim>\<open>isMenuOpen\<close> and
  \<^verbatim>\<open>isProcessing\<close> (line 171, and again in \<^verbatim>\<open>hideHelper\<close>), but they are the constants of the
  render that registered the handler. In the example the element 2 is focused, the menu is
  opened, and the focus moves to the link 4: the handler of the first render starts a
  timer. When the timer fires the menu (node 11) is open; the trigger (node 10) is hidden
  and the menu closed all the same.
\<close>

theorem blur_timeout_hides_open_menu:
  "listeners (mounted ''key'') = Some (initial_render ''key'') \<and>
   isMenuOpen (state (run [FocusIn 2, ButtonClick, FocusOut (Some 4)] (mounted ''key''))) \<and>
   style_display (nodes (run [FocusIn 2, ButtonClick, FocusOut (Some 4)] (mounted ''key'')) 10) =
     ''flex'' \<and>
   style_display (nodes (run [FocusIn 2, ButtonClick, FocusOut (Some 4)] (mounted ''key'')) 11) =
     ''block'' \<and>
   timers (run [FocusIn 2, ButtonClick, FocusOut (Some 4)] (mounted ''key'')) =
     [initial_render ''key''] \<and>
   style_display (nodes (run [FocusIn 2, ButtonClick, FocusOut (Some 4), Timeout]
     (mounted ''key'')) 10) = ''none'' \<and>
   style_display (nodes (run [FocusIn 2, ButtonClick, FocusOut (Some 4), Timeout]
     (mounted ''key'')) 11) = ''none'' \<and>
   \<not> isMenuOpen (state (run [FocusIn 2, ButtonClick, FocusOut (Some 4), Timeout]
     (mounted ''key'')))"
  by code_simp

section \<open>A click outside\<close>

text \<open>
  Claim C8. A document click whose target is outside both the trigger and the menu (no
  inclusive ancestor of the target has the class of either) closes the menu within the same
  call of the handler: the state says closed, the menu is not displayed, and no timer has
  been started. This does not depend on the render of the handler nor on whether the
  handler goes on to hide the trigger.
\<close>

theorem handleDocumentClick_outside_closes_menu:
  assumes "closest w ''gemini-helper-button'' target = None"
    and "closest w ''gemini-helper-menu'' target = None"
    and "helperMenuRef w = Some menu"
  shows "\<not> isMenuOpen (state (handleDocumentClick r target w)) \<and>
         style_display (nodes (handleDocumentClick r target w) menu) = ''none'' \<and>
         timers (handleDocumentClick r target w) = timers w"
  using assms
  by (simp add: handleDocumentClick_def hideHelper_def closeMenu_def Let_def
      split: option.splits)

text \<open>
  In the example the menu (node 13) is open and the click is on the focused element 2,
  which is the current element of the handler's render: the menu is closed and the trigger
  (node 12) stays.
\<close>

theorem handleDocumentClick_outside_closes_menu_witness:
  "closest (run [ButtonClick] (key_loaded_on 2)) ''gemini-helper-button'' 2 = None \<and>
   closest (run [ButtonClick] (key_loaded_on 2)) ''gemini-helper-menu'' 2 = None \<and>
   helperMenuRef (run [ButtonClick] (key_loaded_on 2)) = Some 13 \<and>
   isMenuOpen (state (run [ButtonClick] (key_loaded_on 2))) \<and>
   style_display (nodes (run [ButtonClick] (key_loaded_on 2)) 13) = ''block'' \<and>
   \<not> isMenuOpen (state (handleDocumentClick (target_render ''key'' 2) 2
                          (run [ButtonClick] (key_loaded_on 2)))) \<and>
   style_display (nodes (handleDocumentClick (target_render ''key'' 2) 2
                          (run [ButtonClick] (key_loaded_on 2))) 13) = ''none'' \<and>
   style_display (nodes (handleDocumentClick (target_render ''key'' 2) 2
                          (run [ButtonClick] (key_loaded_on 2))) 12) = ''flex'' \<and>
   timers (handleDocumentClick (target_render ''key'' 2) 2
             (run [ButtonClick] (key_loaded_on 2))) = []"
proof -
  have h1: "closest (run [ButtonClick] (key_loaded_on 2)) ''gemini-helper-button'' 2 = None"
    by code_simp
  have h2: "closest (run [ButtonClick] (key_loaded_on 2)) ''gemini-helper-menu'' 2 = None"
    by code_simp
  have h3: "helperMenuRef (run [ButtonClick] (key_loaded_on 2)) = Some 13" by code_simp
  have e: "isMenuOpen (state (run [ButtonClick] (key_loaded_on 2)))"
    "style_display (nodes (run [ButtonClick] (key_loaded_on 2)) 13) = ''block''"
    "timers (run [ButtonClick] (key_loaded_on 2)) = []"
    "style_display (nodes (handleDocumentClick (target_render ''key'' 2) 2
                          (run [ButtonClick] (key_loaded_on 2))) 12) = ''flex''"
    by code_simp+
  from handleDocumentClick_outside_closes_menu [OF h1 h2 h3, of "target_render ''key'' 2"]
  show ?thesis using h1 h2 h3 e by simp
qed

section \<open>The invariant of the overlay\<close>

lemma menu_invariant_update_node:
  assumes "menu_invariant w"
    and "helperMenuRef w = Some i \<Longrightarrow> style_display (f (nodes w i)) = style_display (nodes w i)"
  shows "menu_invariant (update_node i f w)"
  using assms by (auto simp: menu_invariant_def split: option.splits)

lemma menu_invariant_button:
  assumes "menu_invariant w" and "helperButtonRef w = Some button"
  shows "menu_invariant (update_node button f w)"
  using assms by (auto simp: menu_invariant_def split: option.splits)

lemma menu_invariant_fields [simp]:
  "menu_invariant (setCurrentElement e w) = menu_invariant w"
  "menu_invariant (setIsProcessing b w) = menu_invariant w"
  "menu_invariant (alert msg w) = menu_invariant w"
  "menu_invariant (w\<lparr>activeElement := a\<rparr>) = menu_invariant w"
  "menu_invariant (w\<lparr>timers := ts\<rparr>) = menu_invariant w"
  "menu_invariant (w\<lparr>inflight := rs\<rparr>) = menu_invariant w"
  "menu_invariant (w\<lparr>trace := tr\<rparr>) = menu_invariant w"
  "menu_invariant (w\<lparr>trace := tr, inflight := rs\<rparr>) = menu_invariant w"
  by (simp_all add: menu_invariant_def setCurrentElement_def setIsProcessing_def alert_def
      split: option.splits)

lemma menu_invariant_openMenu: "menu_invariant w \<Longrightarrow> menu_invariant (openMenu w)"
  by (auto simp: menu_invariant_def openMenu_def split: option.splits)

lemma menu_invariant_closeMenu: "menu_invariant w \<Longrightarrow> menu_invariant (closeMenu w)"
  by (auto simp: menu_invariant_def closeMenu_def split: option.splits)

lemma menu_invariant_hideHelper: "menu_invariant w \<Longrightarrow> menu_invariant (hideHelper r w)"
  by (simp add: hideHelper_def menu_invariant_closeMenu menu_invariant_button
      split: option.splits)

lemma menu_invariant_updateHelperPosition:
  "menu_invariant w \<Longrightarrow> menu_invariant (updateHelperPosition el w)"
  by (simp add: updateHelperPosition_def Let_def menu_invariant_update_node menu_invariant_button
      split: option.splits)

lemma menu_invariant_showHelper: "menu_invariant w \<Longrightarrow> menu_invariant (showHelper el w)"
  by (simp add: showHelper_def menu_invariant_updateHelperPosition)

lemma menu_invariant_finally_block:
  "menu_invariant w \<Longrightarrow> menu_invariant (finally_block r w)"
  by (simp add: finally_block_def Let_def menu_invariant_hideHelper menu_invariant_button
      split: option.splits)

lemma menu_invariant_processText:
  "menu_invariant w \<Longrightarrow> menu_invariant (processText r prompt w)"
  by (simp add: processText_def Let_def menu_invariant_finally_block menu_invariant_closeMenu
        menu_invariant_button
      split: option.splits)

lemma menu_invariant_processText_resume:
  "menu_invariant w \<Longrightarrow> menu_invariant (processText_resume r resp w)"
  by (cases resp)
     (simp_all add: processText_resume_def menu_invariant_finally_block
        menu_invariant_update_node split: option.splits)

lemma menu_invariant_step: "menu_invariant w \<Longrightarrow> menu_invariant (step r ev w)"
  by (cases ev)
     (simp_all add: handleElementFocus_def handleElementBlur_def handleDocumentClick_def
        handleButtonClick_def handleScroll_def handleResize_def blurTimeout_def Let_def
        menu_invariant_showHelper menu_invariant_hideHelper menu_invariant_openMenu
        menu_invariant_closeMenu menu_invariant_updateHelperPosition
        menu_invariant_processText menu_invariant_processText_resume
        split: option.splits list.splits)

lemma menu_invariant_run: "menu_invariant w \<Longrightarrow> menu_invariant (run evs w)"
  by (induction evs arbitrary: w)
     (simp_all add: dispatch_def menu_invariant_step split: option.splits)

lemma menu_invariant_useEffect:
  assumes "\<not> isMenuOpen (state w)" and "useEffect r w = Inr w'"
  shows "menu_invariant w'"
proof -
  define w3 where "w3 = (snd (createHelperMenu (snd (createHelperButton w))))
      \<lparr>helperButtonRef := Some (fresh w), helperMenuRef := Some (Suc (fresh w)),
       listeners := Some r\<rparr>"
  have inv3: "menu_invariant w3"
    using assms(1)
    by (simp add: w3_def menu_invariant_def createHelperButton_def createHelperMenu_def Let_def)
  have "w' = w3 \<or> (\<exists>el. w' = handleElementFocus el w3)"
    using assms(2)
    by (auto simp: useEffect_def w3_def createHelperButton_def createHelperMenu_def Let_def
        split: if_splits option.splits)
  then show ?thesis
    using inv3 by (auto simp: handleElementFocus_def menu_invariant_showHelper)
qed

lemma menu_invariant_mount: "mount key p = Inr w \<Longrightarrow> menu_invariant w"
  by (rule menu_invariant_useEffect [of "p\<lparr>state := initial_render key\<rparr>" "initial_render key"])
     (simp_all add: mount_def initial_render_def)

text \<open>
  Claim C9, as amended. In every state that the events of the page lead to after the
  component has mounted, the menu is displayed if and only if \<open>menuOpen\<close> is true; and show,
  hide, open, close and the two parts of a transform each keep it so, whatever render they
  belong to. Nothing is said of when the trigger is hidden.
\<close>

theorem menu_invariant_preserved:
  "(mount key p = Inr w0 \<longrightarrow> menu_invariant (run evs w0)) \<and>
   (menu_invariant w \<longrightarrow>
      menu_invariant (showHelper el w) \<and> menu_invariant (hideHelper r w) \<and>
      menu_invariant (openMenu w) \<and> menu_invariant (closeMenu w) \<and>
      menu_invariant (processText r prompt w) \<and>
      menu_invariant (processText_resume r resp w))"
  by (simp add: menu_invariant_mount menu_invariant_run menu_invariant_showHelper
        menu_invariant_hideHelper menu_invariant_openMenu menu_invariant_closeMenu
        menu_invariant_processText menu_invariant_processText_resume)

theorem menu_invariant_preserved_witness:
  "mount ''key'' example_page = Inr (mounted ''key'') \<and>
   menu_invariant (run [FocusIn 2, ButtonClick, FocusOut (Some 4), Timeout] (mounted ''key'')) \<and>
   menu_invariant request_in_flight \<and>
   isMenuOpen (state (openMenu request_in_flight)) \<and>
   menu_invariant (showHelper 5 request_in_flight) \<and>
   menu_invariant (hideHelper (target_render ''key'' 2) request_in_flight) \<and>
   menu_invariant (openMenu request_in_flight) \<and>
   menu_invariant (closeMenu request_in_flight) \<and>
   menu_invariant (processText (target_render ''key'' 2) (prompt_of ClarityOption)
     request_in_flight) \<and>
   menu_invariant (processText_resume (target_render ''key'' 2) (Candidate ''Hello world.'')
     request_in_flight)"
proof -
  have i: "menu_invariant request_in_flight" by code_simp
  have o: "isMenuOpen (state (openMenu request_in_flight))" by code_simp
  from menu_invariant_preserved [where key = "''key''" and p = example_page
      and ?w0.0 = "mounted ''key''"
      and evs = "[FocusIn 2, ButtonClick, FocusOut (Some 4), Timeout]"
      and w = request_in_flight and el = 5 and r = "target_render ''key'' 2"
      and prompt = "prompt_of ClarityOption" and resp = "Candidate ''Hello world.''"]
  show ?thesis using mount_mounted [of "''key''"] i o by simp
qed

text \<open>
  As stated, C9 also says that the trigger is hidden only when no Target is focused. The
  hide that a blur schedules is never cancelled: the focus goes from the input 1 to the
  block 2, which becomes the current element and keeps the focus, and when the timer of the
  blur fires the trigger (node 10) is hidden.
\<close>

theorem pending_hide_hides_trigger_of_focused_target:
  "helperButtonRef (run [FocusIn 1, FocusOut (Some 2), FocusIn 2, Timeout] (mounted ''key'')) =
     Some 10 \<and>
   style_display (nodes (run [FocusIn 1, FocusOut (Some 2), FocusIn 2, Timeout]
     (mounted ''key'')) 10) = ''none'' \<and>
   currentElement (state (run [FocusIn 1, FocusOut (Some 2), FocusIn 2, Timeout]
     (mounted ''key''))) = Some 2 \<and>
   activeElement (run [FocusIn 1, FocusOut (Some 2), FocusIn 2, Timeout] (mounted ''key'')) =
     Some 2 \<and>
   target_focused (run [FocusIn 1, FocusOut (Some 2), FocusIn 2, Timeout] (mounted ''key'')) \<and>
   \<not> stated_invariant (run [FocusIn 1, FocusOut (Some 2), FocusIn 2, Timeout] (mounted ''key''))"
  by code_simp

section \<open>An element that has the focus when the component mounts\<close>

text \<open>
  Claim C10. When the component mounts and an element other than the body has the focus,
  mounting succeeds and that element goes through the test of a focus event: if its tag is
  \<^verbatim>\<open>TEXTAREA\<close> or \<^verbatim>\<open>INPUT\<close>, or it is content-editable, or its role is \<^verbatim>\<open>textbox\<close>, it is the
  current element and the trigger is shown at its top right corner when the effect
  returns, with no further focus event; otherwise there is no current element and the
  trigger is hidden. (\<open>el < fresh w\<close>: the element exists before the controls are created.)
\<close>

theorem mount_adopts_focused_element:
  assumes "activeElement w = Some el" and "el \<noteq> body w" and "el < fresh w"
  shows "\<exists>w'. mount key w = Inr w' \<and> helperButtonRef w' = Some (fresh w) \<and>
           (if tagName (nodes w el) = ''TEXTAREA'' \<or> tagName (nodes w el) = ''INPUT'' \<or>
               isContentEditable (nodes w el) \<or> role (nodes w el) = Some ''textbox''
            then currentElement (state w') = Some el \<and>
                 style_display (nodes w' (fresh w)) = ''flex'' \<and>
                 style_left (nodes w' (fresh w)) =
                   Some (rect_right (nodes w el) + scrollX w - 32) \<and>
                 style_top (nodes w' (fresh w)) = Some (rect_top (nodes w el) + scrollY w)
            else currentElement (state w') = None \<and>
                 style_display (nodes w' (fresh w)) = ''none'')"
  using assms
  by (simp add: mount_def useEffect_def createHelperButton_def createHelperMenu_def
        handleElementFocus_def showHelper_def updateHelperPosition_def initial_render_def Let_def)

theorem mount_adopts_focused_element_witness:
  "activeElement (focused_page 2) = Some 2 \<and> body (focused_page 2) = 0 \<and>
   fresh (focused_page 2) = 10 \<and> isContentEditable (nodes (focused_page 2) 2) \<and>
   (\<exists>w'. mount ''key'' (focused_page 2) = Inr w' \<and> helperButtonRef w' = Some 10 \<and>
      currentElement (state w') = Some 2 \<and> style_display (nodes w' 10) = ''flex'' \<and>
      style_left (nodes w' 10) = Some 268 \<and> style_top (nodes w' 10) = Some 207)"
proof -
  have h1: "activeElement (focused_page 2) = Some 2" by code_simp
  have h2: "2 \<noteq> body (focused_page 2)" by code_simp
  have h3: "2 < fresh (focused_page 2)" by code_simp
  have e: "body (focused_page 2) = 0" "fresh (focused_page 2) = 10"
    "isContentEditable (nodes (focused_page 2) 2)"
    "rect_right (nodes (focused_page 2) 2) = 300" "rect_top (nodes (focused_page 2) 2) = 200"
    "scrollX (focused_page 2) = 0" "scrollY (focused_page 2) = 7"
    by code_simp+
  from mount_adopts_focused_element [OF h1 h2 h3, of "''key''"]
  show ?thesis using h1 e by simp
qed

end
